theory Spec2Isabelle
  imports Main
begin

section \<open>The slice router reconciler of the worker operator\<close>

text \<open>
  A shallow embedding of the slice router part of the Slice reconciler
  (package \<open>slice\<close>): the builders of the router Deployment and Service,
  \<open>getNsmDataplaneMode\<close>, \<open>getClusterPrefixPool\<close>, \<open>deploySliceRouter\<close>,
  \<open>deploySliceRouterSvc\<close>, \<open>ReconcileSliceRouter\<close> and \<open>cleanupSliceRouter\<close>.

  Go errors are values of \<open>api_error\<close>; a run-time panic (an index out of range, a nil
  pointer dereference) is a value of \<open>panic\<close>. Every function that talks to the cluster
  takes the cluster and returns it, with every client call it issued appended to a log.
\<close>

subsection \<open>Errors and panics\<close>

datatype api_error =
    NotFound
  | AlreadyExists
  | ServerError string
  | InvalidDataplane string
  | OwnerReferenceError string

text \<open>\<open>errors.IsNotFound\<close> of apimachinery.\<close>

fun IsNotFound :: "api_error \<Rightarrow> bool" where
  "IsNotFound NotFound = True"
| "IsNotFound _ = False"

datatype panic = IndexOutOfRange | NilPointerDereference

subsection \<open>Strings\<close>

text \<open>
  \<open>strings.Split(s, sep)\<close> for a separator of one byte (the only call site splits at
  \<open>"."\<close>): the pieces between the separators, so \<open>n\<close> separators give \<open>n + 1\<close> pieces
  and the empty string gives one empty piece.
\<close>

fun strings_Split :: "string \<Rightarrow> char \<Rightarrow> string list" where
  "strings_Split [] sep = [[]]"
| "strings_Split (x # xs) sep =
     (if x = sep then [] # strings_Split xs sep
      else (case strings_Split xs sep of
              [] \<Rightarrow> [[x]]
            | w # ws \<Rightarrow> (x # w) # ws))"

text \<open>\<open>strings.Join(elems, sep)\<close>.\<close>

fun strings_Join :: "string list \<Rightarrow> string \<Rightarrow> string" where
  "strings_Join [] sep = []"
| "strings_Join [x] sep = x"
| "strings_Join (x # y # ys) sep = x @ sep @ strings_Join (y # ys) sep"

text \<open>\<open>strconv.Itoa\<close>: the decimal digits of an integer, with a sign when negative.\<close>

fun digits :: "nat \<Rightarrow> string" where
  "digits n =
     (if n < 10 then [''0123456789'' ! n]
      else digits (n div 10) @ [''0123456789'' ! (n mod 10)])"

declare digits.simps [simp del]

definition strconv_Itoa :: "int \<Rightarrow> string" where
  "strconv_Itoa i = (if i < 0 then CHR ''-'' # digits (nat (- i)) else digits (nat i))"

subsection \<open>The Slice resource\<close>

text \<open>
  Of the Slice custom resource, the fields this code reads: name, namespace, and of the
  status the slice configuration (a pointer, hence an option) and the DNS address.
\<close>

record SliceConfig =
  SliceSubnet :: string
  IpamClusterOctet :: int

record Slice =
  slice_Name :: string
  slice_Namespace :: string
  Status_SliceConfig :: "SliceConfig option"
  Status_DNSIP :: string

subsection \<open>Kubernetes objects\<close>

text \<open>
  A Go \<open>map[string]string\<close> literal is an association list in the order of the source;
  it is read through \<open>map_of\<close>.
\<close>

type_synonym labels = "(string \<times> string) list"

record OwnerReference =
  ref_Kind :: string
  ref_Name :: string
  ref_Controller :: bool

record ObjectMeta =
  Name :: string
  Namespace :: string
  OwnerReferences :: "OwnerReference list"

type_synonym EnvVar = "string \<times> string"

record VolumeMount =
  vm_Name :: string
  vm_MountPath :: string
  vm_SubPath :: string

record Container =
  Image :: string
  c_Name :: string
  ImagePullPolicy :: string
  Env :: "EnvVar list"
  Limits :: "(string \<times> int) list"
  Privileged :: "bool option"
  AllowPrivilegeEscalation :: "bool option"
  CapabilitiesAdd :: "string list"
  VolumeMounts :: "VolumeMount list"

datatype VolumeSource = EmptyDir | ConfigMap string

record Volume =
  v_Name :: string
  v_VolumeSource :: VolumeSource

record NodeSelectorRequirement =
  nsr_Key :: string
  nsr_Operator :: string
  nsr_Values :: "string list"

record Toleration =
  t_Key :: string
  t_Operator :: string
  t_Effect :: string
  t_Value :: string

record Deployment =
  d_ObjectMeta :: ObjectMeta
  Replicas :: int
  Selector_MatchLabels :: labels
  Template_Labels :: labels
  ServiceAccountName :: string
  NodeSelectorTerms :: "NodeSelectorRequirement list list"
  Containers :: "Container list"
  Volumes :: "Volume list"
  Tolerations :: "Toleration list"
  ImagePullSecrets :: "string list"

record ServicePort =
  Port :: int
  port_Name :: string

record Service =
  s_ObjectMeta :: ObjectMeta
  Selector :: labels
  Ports :: "ServicePort list"

record Pod =
  pod_Name :: string
  pod_Namespace :: string
  pod_Labels :: labels

datatype kind = KDeployment | KService | KNetworkService

text \<open>An object is addressed by its kind, its namespace and its name.\<close>

type_synonym key = "kind \<times> string \<times> string"

datatype object =
    ODeployment Deployment
  | OService Service
  | ONetworkService ObjectMeta

fun key_of :: "object \<Rightarrow> key" where
  "key_of (ODeployment d) = (KDeployment, Namespace (d_ObjectMeta d), Name (d_ObjectMeta d))"
| "key_of (OService s) = (KService, Namespace (s_ObjectMeta s), Name (s_ObjectMeta s))"
| "key_of (ONetworkService m) = (KNetworkService, Namespace m, Name m)"

subsection \<open>The cluster behind the client, and the event recorder\<close>

text \<open>
  The reconciler reaches the cluster through the controller-runtime client
  (\<open>Get\<close>, \<open>List\<close>, \<open>Create\<close>, \<open>Delete\<close>) and reports through an event recorder. Both
  are collaborators outside this repository; they are modelled by a cluster that holds
  the stored objects and the pods, answers a call with an error whenever \<open>fault\<close> says
  so (a lost connection, a refused request), and logs every call it receives.
\<close>

datatype call =
    CGet key
  | CList string labels
  | CCreate object
  | CDelete object

record Event =
  ev_Object :: string
  ev_EventType :: string
  ev_Reason :: string
  ev_Message :: string

record cluster =
  objects :: "key \<rightharpoonup> object"
  pods :: "Pod list"
  fault :: "call \<Rightarrow> api_error option"
  calls :: "call list"
  events :: "Event list"

definition logged :: "cluster \<Rightarrow> call \<Rightarrow> cluster" where
  "logged c x = c\<lparr>calls := calls c @ [x]\<rparr>"

definition Get_response :: "cluster \<Rightarrow> key \<Rightarrow> api_error + object" where
  "Get_response c k =
     (case fault c (CGet k) of
        Some e \<Rightarrow> Inl e
      | None \<Rightarrow> (case objects c k of None \<Rightarrow> Inl NotFound | Some ob \<Rightarrow> Inr ob))"

definition client_Get :: "cluster \<Rightarrow> key \<Rightarrow> (api_error + object) \<times> cluster" where
  "client_Get c k = (Get_response c k, logged c (CGet k))"

definition matches :: "string \<Rightarrow> labels \<Rightarrow> Pod \<Rightarrow> bool" where
  "matches ns sel p \<longleftrightarrow>
     pod_Namespace p = ns \<and> list_all (\<lambda>(k, v). map_of (pod_Labels p) k = Some v) sel"

definition List_response :: "cluster \<Rightarrow> string \<Rightarrow> labels \<Rightarrow> api_error + Pod list" where
  "List_response c ns sel =
     (case fault c (CList ns sel) of
        Some e \<Rightarrow> Inl e
      | None \<Rightarrow> Inr (filter (matches ns sel) (pods c)))"

definition client_List :: "cluster \<Rightarrow> string \<Rightarrow> labels \<Rightarrow> (api_error + Pod list) \<times> cluster" where
  "client_List c ns sel = (List_response c ns sel, logged c (CList ns sel))"

definition Create_response :: "cluster \<Rightarrow> object \<Rightarrow> api_error option" where
  "Create_response c ob =
     (case fault c (CCreate ob) of
        Some e \<Rightarrow> Some e
      | None \<Rightarrow> (case objects c (key_of ob) of None \<Rightarrow> None | Some _ \<Rightarrow> Some AlreadyExists))"

definition client_Create :: "cluster \<Rightarrow> object \<Rightarrow> api_error option \<times> cluster" where
  "client_Create c ob =
     (case Create_response c ob of
        Some e \<Rightarrow> (Some e, logged c (CCreate ob))
      | None \<Rightarrow> (None, logged (c\<lparr>objects := (objects c)(key_of ob \<mapsto> ob)\<rparr>) (CCreate ob)))"

definition Delete_response :: "cluster \<Rightarrow> object \<Rightarrow> api_error option" where
  "Delete_response c ob =
     (case fault c (CDelete ob) of
        Some e \<Rightarrow> Some e
      | None \<Rightarrow> (case objects c (key_of ob) of None \<Rightarrow> Some NotFound | Some _ \<Rightarrow> None))"

definition client_Delete :: "cluster \<Rightarrow> object \<Rightarrow> api_error option \<times> cluster" where
  "client_Delete c ob =
     (case Delete_response c ob of
        Some e \<Rightarrow> (Some e, logged c (CDelete ob))
      | None \<Rightarrow> (None, logged (c\<lparr>objects := (objects c)(key_of ob := None)\<rparr>) (CDelete ob)))"

definition Record :: "cluster \<Rightarrow> Event \<Rightarrow> cluster" where
  "Record c ev = c\<lparr>events := events c @ [ev]\<rparr>"

text \<open>What the client answers to a call, as an error or none.\<close>

fun call_error :: "cluster \<Rightarrow> call \<Rightarrow> api_error option" where
  "call_error c (CGet k) = (case Get_response c k of Inl e \<Rightarrow> Some e | Inr _ \<Rightarrow> None)"
| "call_error c (CList ns sel) = (case List_response c ns sel of Inl e \<Rightarrow> Some e | Inr _ \<Rightarrow> None)"
| "call_error c (CCreate ob) = Create_response c ob"
| "call_error c (CDelete ob) = Delete_response c ob"

fun is_write :: "call \<Rightarrow> bool" where
  "is_write (CCreate _) = True"
| "is_write (CDelete _) = True"
| "is_write _ = False"

fun is_Get :: "call \<Rightarrow> bool" where
  "is_Get (CGet _) = True"
| "is_Get _ = False"

text \<open>The calls a run issued: what the log of \<open>c'\<close> holds beyond the log of \<open>c\<close>.\<close>

definition pass_calls :: "cluster \<Rightarrow> cluster \<Rightarrow> call list" where
  "pass_calls c c' = drop (length (calls c)) (calls c')"

subsection \<open>The reconciler and its configuration\<close>

text \<open>
  The package reads four image settings from the process environment when it starts, and
  two settings (\<open>ControlPlaneNamespace\<close>, \<open>ImagePullSecretName\<close>) from package
  \<open>controllers\<close>, which is not part of this fragment: all six are fields of the reconciler.

  \<open>ctrl.SetControllerReference(owner, object, r.Scheme)\<close> belongs to controller-runtime.
  It either fails or leaves a list of owner references on the object, and touches nothing
  else of it; what it answers for an owner and an object is the field \<open>Scheme\<close>.
\<close>

record SliceReconciler =
  sliceRouterSidecarImage :: string
  sliceRouterSidecarImagePullPolicy :: string
  vl3RouterImage :: string
  vl3RouterPullPolicy :: string
  ControlPlaneNamespace :: string
  ImagePullSecretName :: string
  Scheme :: "Slice \<Rightarrow> ObjectMeta \<Rightarrow> api_error option \<times> OwnerReference list"

definition SetControllerReference ::
  "SliceReconciler \<Rightarrow> Slice \<Rightarrow> ObjectMeta \<Rightarrow> api_error option \<times> ObjectMeta" where
  "SetControllerReference r owner m =
     (case Scheme r owner m of (err, refs) \<Rightarrow> (err, m\<lparr>OwnerReferences := refs\<rparr>))"

record Result =
  Requeue :: bool
  RequeueAfter :: int

text \<open>\<open>time.Duration\<close> counts nanoseconds.\<close>

definition time_Second :: int where
  "time_Second = 1000000000"

definition Result_empty :: Result where
  "Result_empty = \<lparr>Requeue = False, RequeueAfter = 0\<rparr>"

subsection \<open>Constants of the package\<close>

definition nsmDataplaneVpp :: string where
  "nsmDataplaneVpp = ''vpp''"

definition nsmDataplaneKernel :: string where
  "nsmDataplaneKernel = ''kernel''"

definition nsmVppDataplaneCfgStr :: string where
  "nsmVppDataplaneCfgStr = ''nsm-vpp-plane''"

definition nsmKernelDataplaneCfgStr :: string where
  "nsmKernelDataplaneCfgStr = ''nsm-kernel-plane''"

definition sliceRouterDeploymentNamePrefix :: string where
  "sliceRouterDeploymentNamePrefix = ''vl3-slice-router-''"

definition PullAlways :: string where
  "PullAlways = ''Always''"

subsection \<open>Building the objects\<close>

definition labelsForSliceRouterDeployment :: "string \<Rightarrow> labels" where
  "labelsForSliceRouterDeployment name =
     [(''networkservicemesh.io/app'', ''vl3-nse-'' @ name),
      (''networkservicemesh.io/impl'', ''vl3-service-'' @ name),
      (''avesha.io/pod-type'', ''router''),
      (''avesha.io/slice'', name)]"

definition getSliceRouterSidecarImageAndPullPolicy :: "SliceReconciler \<Rightarrow> string \<times> string" where
  "getSliceRouterSidecarImageAndPullPolicy r =
     (let pullPolicy =
            (if length (sliceRouterSidecarImagePullPolicy r) > 0
             then sliceRouterSidecarImagePullPolicy r else PullAlways)
      in (sliceRouterSidecarImage r, pullPolicy))"

text \<open>
  \<open>getClusterPrefixPool\<close> writes to the elements 2 and 3 of the split subnet, one after
  the other; Go panics at the first index that is not below the length.
\<close>

definition getClusterPrefixPool :: "string \<Rightarrow> string \<Rightarrow> panic + string" where
  "getClusterPrefixPool sliceSubnet ipamOctet =
     (let octetList = strings_Split sliceSubnet (CHR ''.'') in
      if \<not> 2 < length octetList then Inl IndexOutOfRange
      else let octetList = octetList[2 := ipamOctet] in
      if \<not> 3 < length octetList then Inl IndexOutOfRange
      else let octetList = octetList[3 := ''0/24''] in
      Inr (strings_Join octetList ''.''))"

text \<open>
  The router container. \<open>s.Status.SliceConfig\<close> is dereferenced before anything is built,
  in either dataplane mode, so a nil configuration or a subnet that
  \<open>getClusterPrefixPool\<close> cannot index is a panic here.
\<close>

definition getContainerSpecForSliceRouter ::
  "SliceReconciler \<Rightarrow> Slice \<Rightarrow> string \<Rightarrow> string \<Rightarrow> panic + Container" where
  "getContainerSpecForSliceRouter r s ipamOctet dataplane =
     (let vl3Image =
            (if length (vl3RouterImage r) \<noteq> 0 then vl3RouterImage r
             else ''nexus.dev.aveshalabs.io/avesha/vl3_ucnf-nse:1.0.0'');
          vl3ImagePullPolicy =
            (if length (vl3RouterPullPolicy r) \<noteq> 0 then vl3RouterPullPolicy r else PullAlways)
      in case Status_SliceConfig s of
           None \<Rightarrow> Inl NilPointerDereference
         | Some cfg \<Rightarrow>
            (case getClusterPrefixPool (SliceSubnet cfg) ipamOctet of
               Inl p \<Rightarrow> Inl p
             | Inr clusterPrefixPool \<Rightarrow>
                (let sliceRouterContainer =
                       \<lparr>Image = vl3Image,
                        c_Name = ''vl3-nse'',
                        ImagePullPolicy = vl3ImagePullPolicy,
                        Env =
                          [(''DATAPLANE'', dataplane),
                           (''ENDPOINT_NETWORK_SERVICE'', ''vl3-service-'' @ slice_Name s),
                           (''ENDPOINT_LABELS'', ''app='' @ ''vl3-nse-'' @ slice_Name s),
                           (''TRACER_ENABLED'', ''true''),
                           (''NSREGISTRY_ADDR'', ''nsmgr.'' @ ControlPlaneNamespace r),
                           (''NSREGISTRY_PORT'', ''5000'')],
                        Limits = [(''networkservicemesh.io/socket'', 1)],
                        Privileged = Some True,
                        AllowPrivilegeEscalation = None,
                        CapabilitiesAdd = [],
                        VolumeMounts = []\<rparr>;
                     sliceRouterContainer =
                       (if dataplane = nsmDataplaneKernel
                        then sliceRouterContainer
                               \<lparr>Env := Env sliceRouterContainer @
                                  [(''IP_ADDRESS'', clusterPrefixPool),
                                   (''DST_ROUTES'', SliceSubnet cfg),
                                   (''DNS_NAMESERVERS'', Status_DNSIP s),
                                   (''DNS_DOMAINS'', ''slice.local'')]\<rparr>
                        else sliceRouterContainer);
                     sliceRouterContainer =
                       (if dataplane = nsmDataplaneVpp
                        then sliceRouterContainer
                               \<lparr>Env := Env sliceRouterContainer @
                                  [(''NSE_IPAM_UNIQUE_OCTET'', ipamOctet)],
                                VolumeMounts := VolumeMounts sliceRouterContainer @
                                  [\<lparr>vm_Name = ''universal-cnf-config-volume'',
                                    vm_MountPath = ''/etc/universal-cnf/config.yaml'',
                                    vm_SubPath = ''config.yaml''\<rparr>]\<rparr>
                        else sliceRouterContainer)
                 in Inr sliceRouterContainer)))"

definition getContainerSpecForSliceRouterSidecar :: "SliceReconciler \<Rightarrow> string \<Rightarrow> Container" where
  "getContainerSpecForSliceRouterSidecar r dataplane =
     (case getSliceRouterSidecarImageAndPullPolicy r of
        (vl3SidecarImage, vl3SidecarImagePullPolicy) \<Rightarrow>
          \<lparr>Image = vl3SidecarImage,
           c_Name = ''avesha-vl3-sidecar'',
           ImagePullPolicy = vl3SidecarImagePullPolicy,
           Env = [(''DATAPLANE'', dataplane), (''POD_TYPE'', ''SLICEROUTER_POD'')],
           Limits = [],
           Privileged = Some True,
           AllowPrivilegeEscalation = Some True,
           CapabilitiesAdd = [''NET_ADMIN''],
           VolumeMounts =
             [\<lparr>vm_Name = ''shared-volume'', vm_MountPath = ''/config'', vm_SubPath = []\<rparr>]\<rparr>)"

definition getVolumeSpecForSliceRouter :: "Slice \<Rightarrow> string \<Rightarrow> Volume list" where
  "getVolumeSpecForSliceRouter s dataplane =
     (let sliceRouterVolumeSpec = [\<lparr>v_Name = ''shared-volume'', v_VolumeSource = EmptyDir\<rparr>]
      in if dataplane = nsmDataplaneVpp
         then sliceRouterVolumeSpec @
                [\<lparr>v_Name = ''universal-cnf-config-volume'',
                  v_VolumeSource = ConfigMap (''ucnf-vl3-service-'' @ slice_Name s)\<rparr>]
         else sliceRouterVolumeSpec)"

text \<open>
  The Deployment of the router. The error of \<open>SetControllerReference\<close> is dropped here;
  the Deployment keeps the owner references that call left on it.
\<close>

definition deploymentForSliceRouter ::
  "SliceReconciler \<Rightarrow> Slice \<Rightarrow> string \<Rightarrow> string \<Rightarrow> panic + Deployment" where
  "deploymentForSliceRouter r s ipamOctet dataplane =
     (let ls = labelsForSliceRouterDeployment (slice_Name s)
      in case getContainerSpecForSliceRouter r s ipamOctet dataplane of
           Inl p \<Rightarrow> Inl p
         | Inr router \<Rightarrow>
            (let dep =
                   \<lparr>d_ObjectMeta =
                      \<lparr>Name = sliceRouterDeploymentNamePrefix @ slice_Name s,
                       Namespace = slice_Namespace s,
                       OwnerReferences = []\<rparr>,
                    Replicas = 1,
                    Selector_MatchLabels = ls,
                    Template_Labels = ls,
                    ServiceAccountName = ''slice-router'',
                    NodeSelectorTerms =
                      [[\<lparr>nsr_Key = ''avesha/node-type'', nsr_Operator = ''In'',
                         nsr_Values = [''gateway'']\<rparr>]],
                    Containers = [router, getContainerSpecForSliceRouterSidecar r dataplane],
                    Volumes = getVolumeSpecForSliceRouter s dataplane,
                    Tolerations =
                      [\<lparr>t_Key = ''avesha/node-type'', t_Operator = ''Equal'',
                        t_Effect = ''NoSchedule'', t_Value = ''gateway''\<rparr>,
                       \<lparr>t_Key = ''avesha/node-type'', t_Operator = ''Equal'',
                        t_Effect = ''NoExecute'', t_Value = ''gateway''\<rparr>],
                    ImagePullSecrets = []\<rparr>;
                 dep =
                   (if length (ImagePullSecretName r) \<noteq> 0
                    then dep\<lparr>ImagePullSecrets := [ImagePullSecretName r]\<rparr> else dep)
             in Inr (dep\<lparr>d_ObjectMeta := snd (SetControllerReference r s (d_ObjectMeta dep))\<rparr>)))"

subsection \<open>Dataplane detection\<close>

definition getNsmDataplaneMode :: "cluster \<Rightarrow> Slice \<Rightarrow> (api_error + string) \<times> cluster" where
  "getNsmDataplaneMode c slice =
     (case client_List c (slice_Namespace slice) [(''app'', nsmVppDataplaneCfgStr)] of
        (Inl err, c') \<Rightarrow> (Inl err, c')
      | (Inr vppPodList, c') \<Rightarrow>
          (if length vppPodList > 0 then (Inr nsmDataplaneVpp, c')
           else (Inr nsmDataplaneKernel, c')))"

subsection \<open>Deploying the router and its service\<close>

definition deploySliceRouter ::
  "SliceReconciler \<Rightarrow> cluster \<Rightarrow> Slice \<Rightarrow> (panic + api_error option) \<times> cluster" where
  "deploySliceRouter r c slice =
     (case getNsmDataplaneMode c slice of
        (Inl err, c1) \<Rightarrow> (Inr (Some err), c1)
      | (Inr dataplane, c1) \<Rightarrow>
          if dataplane \<noteq> nsmDataplaneKernel \<and> dataplane \<noteq> nsmDataplaneVpp
          then (Inr (Some (InvalidDataplane dataplane)), c1)
          else (case Status_SliceConfig slice of
                  None \<Rightarrow> (Inl NilPointerDereference, c1)
                | Some cfg \<Rightarrow>
                   (let ipamOctet = strconv_Itoa (IpamClusterOctet cfg)
                    in case deploymentForSliceRouter r slice ipamOctet dataplane of
                         Inl p \<Rightarrow> (Inl p, c1)
                       | Inr dep \<Rightarrow>
                          (case client_Create c1 (ODeployment dep) of
                             (Some err, c2) \<Rightarrow>
                               (Inr (Some err),
                                Record c2
                                  \<lparr>ev_Object = slice_Name slice, ev_EventType = ''Warning'',
                                   ev_Reason = ''Error'',
                                   ev_Message = ''Error creating slice router''\<rparr>)
                           | (None, c2) \<Rightarrow> (Inr None, c2)))))"

text \<open>The Service literal of \<open>deploySliceRouterSvc\<close>, before the owner reference is set.\<close>

definition sliceRouterSvc :: "SliceReconciler \<Rightarrow> Slice \<Rightarrow> Service" where
  "sliceRouterSvc r slice =
     (let ls = labelsForSliceRouterDeployment (slice_Name slice)
      in \<lparr>s_ObjectMeta =
            \<lparr>Name = sliceRouterDeploymentNamePrefix @ slice_Name slice,
             Namespace = ControlPlaneNamespace r,
             OwnerReferences = []\<rparr>,
          Selector = ls,
          Ports = [\<lparr>Port = 5000, port_Name = ''grpc''\<rparr>]\<rparr>)"

definition deploySliceRouterSvc ::
  "SliceReconciler \<Rightarrow> cluster \<Rightarrow> Slice \<Rightarrow> api_error option \<times> cluster" where
  "deploySliceRouterSvc r c slice =
     (let svc = sliceRouterSvc r slice
      in case SetControllerReference r slice (s_ObjectMeta svc) of
           (Some err, m) \<Rightarrow> (Some err, c)
         | (None, m) \<Rightarrow>
            (case client_Create c (OService (svc\<lparr>s_ObjectMeta := m\<rparr>)) of
               (Some err, c1) \<Rightarrow>
                 (Some err,
                  Record c1
                    \<lparr>ev_Object = slice_Name slice, ev_EventType = ''Warning'',
                     ev_Reason = ''Error'',
                     ev_Message = ''Error creating service for slice router''\<rparr>)
             | (None, c1) \<Rightarrow> (None, c1)))"

subsection \<open>The reconcile pass and the cleanup\<close>

text \<open>
  The result every waiting branch returns, and the keys of the three Gets: the
  \<open>NamespacedName\<close> each one passes, with the kind of the object it asks for.
\<close>

definition requeue10 :: Result where
  "requeue10 = \<lparr>Requeue = False, RequeueAfter = 10 * time_Second\<rparr>"

definition deploymentKey :: "Slice \<Rightarrow> key" where
  "deploymentKey slice =
     (KDeployment, slice_Namespace slice, sliceRouterDeploymentNamePrefix @ slice_Name slice)"

definition serviceKey :: "SliceReconciler \<Rightarrow> Slice \<Rightarrow> key" where
  "serviceKey r slice =
     (KService, ControlPlaneNamespace r, sliceRouterDeploymentNamePrefix @ slice_Name slice)"

definition ReconcileSliceRouter ::
  "SliceReconciler \<Rightarrow> cluster \<Rightarrow> Slice
     \<Rightarrow> (panic + Result \<times> api_error option \<times> bool) \<times> cluster" where
  "ReconcileSliceRouter r c slice =
     (case client_Get c (deploymentKey slice) of
        (Inl err, c1) \<Rightarrow>
          if IsNotFound err then
            (if (case Status_SliceConfig slice of
                   None \<Rightarrow> True
                 | Some cfg \<Rightarrow> SliceSubnet cfg = [])
             then (Inr (requeue10, None, True), c1)
             else (case deploySliceRouter r c1 slice of
                     (Inl p, c2) \<Rightarrow> (Inl p, c2)
                   | (Inr (Some err), c2) \<Rightarrow> (Inr (Result_empty, Some err, True), c2)
                   | (Inr None, c2) \<Rightarrow> (Inr (requeue10, None, True), c2)))
          else (Inr (Result_empty, Some err, True), c1)
      | (Inr foundSliceRouter, c1) \<Rightarrow>
          (case client_Get c1 (serviceKey r slice) of
             (Inl err, c2) \<Rightarrow>
               if IsNotFound err then
                 (if Status_SliceConfig slice = None
                  then (Inr (requeue10, None, True), c2)
                  else (case deploySliceRouterSvc r c2 slice of
                          (Some err, c3) \<Rightarrow> (Inr (Result_empty, Some err, True), c3)
                        | (None, c3) \<Rightarrow> (Inr (requeue10, None, True), c3)))
               else (Inr (Result_empty, Some err, True), c2)
           | (Inr foundSvc, c2) \<Rightarrow> (Inr (Result_empty, None, False), c2)))"

definition networkServiceKey :: "SliceReconciler \<Rightarrow> string \<Rightarrow> key" where
  "networkServiceKey r sliceName =
     (KNetworkService, ControlPlaneNamespace r, ''vl3-service-'' @ sliceName)"

definition cleanupSliceRouter ::
  "SliceReconciler \<Rightarrow> cluster \<Rightarrow> string \<Rightarrow> api_error option \<times> cluster" where
  "cleanupSliceRouter r c sliceName =
     (case client_Get c (networkServiceKey r sliceName) of
        (Inl err, c1) \<Rightarrow> if IsNotFound err then (None, c1) else (Some err, c1)
      | (Inr vl3Nse, c1) \<Rightarrow>
          (case client_Delete c1 vl3Nse of
             (Some err, c2) \<Rightarrow> (Some err, c2)
           | (None, c2) \<Rightarrow> (None, c2)))"

subsection \<open>A concrete reconciler, slice and cluster\<close>

text \<open>
  The objects the examples below are evaluated on: a scheme that never fails and appends a
  controller reference to the owner, a reconciler with an empty environment, a slice
  with a subnet, and a cluster that stores nothing and answers every call.
\<close>

definition controllerRef :: "Slice \<Rightarrow> OwnerReference" where
  "controllerRef owner =
     \<lparr>ref_Kind = ''Slice'', ref_Name = slice_Name owner, ref_Controller = True\<rparr>"

definition exampleScheme :: "Slice \<Rightarrow> ObjectMeta \<Rightarrow> api_error option \<times> OwnerReference list" where
  "exampleScheme owner m = (None, OwnerReferences m @ [controllerRef owner])"

definition exampleReconciler :: SliceReconciler where
  "exampleReconciler =
     \<lparr>sliceRouterSidecarImage = ''sidecar'',
      sliceRouterSidecarImagePullPolicy = [],
      vl3RouterImage = [],
      vl3RouterPullPolicy = [],
      ControlPlaneNamespace = ''kubeslice-system'',
      ImagePullSecretName = [],
      Scheme = exampleScheme\<rparr>"

definition exampleSlice :: Slice where
  "exampleSlice =
     \<lparr>slice_Name = ''red'',
      slice_Namespace = ''kubeslice-system'',
      Status_SliceConfig = Some \<lparr>SliceSubnet = ''10.1.0.0/16'', IpamClusterOctet = 7\<rparr>,
      Status_DNSIP = ''10.0.0.10''\<rparr>"

definition emptyCluster :: cluster where
  "emptyCluster =
     \<lparr>objects = Map.empty, pods = [], fault = (\<lambda>_. None), calls = [], events = []\<rparr>"

text \<open>A cluster whose pod listing fails, and one that runs a VPP dataplane pod.\<close>

definition faultyCluster :: cluster where
  "faultyCluster =
     emptyCluster
       \<lparr>fault := (\<lambda>x. case x of CList ns sel \<Rightarrow> Some (ServerError ''timeout'') | _ \<Rightarrow> None)\<rparr>"

definition vppCluster :: cluster where
  "vppCluster =
     emptyCluster
       \<lparr>pods :=
          [\<lparr>pod_Name = ''nsm-vpp-forwarder'', pod_Namespace = ''kubeslice-system'',
            pod_Labels = [(''app'', ''nsm-vpp-plane'')]\<rparr>,
           \<lparr>pod_Name = ''coredns'', pod_Namespace = ''kube-system'',
            pod_Labels = [(''app'', ''dns'')]\<rparr>]\<rparr>"

text \<open>A cluster that already holds a router Deployment and Service for the example slice.\<close>

definition provisionedCluster :: cluster where
  "provisionedCluster =
     emptyCluster
       \<lparr>objects :=
          [(KDeployment, ''kubeslice-system'', ''vl3-slice-router-red'') \<mapsto>
             ODeployment
               \<lparr>d_ObjectMeta =
                  \<lparr>Name = ''vl3-slice-router-red'', Namespace = ''kubeslice-system'',
                   OwnerReferences = [controllerRef exampleSlice]\<rparr>,
                Replicas = 1,
                Selector_MatchLabels = labelsForSliceRouterDeployment ''red'',
                Template_Labels = labelsForSliceRouterDeployment ''red'',
                ServiceAccountName = ''slice-router'',
                NodeSelectorTerms = [],
                Containers = [],
                Volumes = [],
                Tolerations = [],
                ImagePullSecrets = []\<rparr>,
           (KService, ''kubeslice-system'', ''vl3-slice-router-red'') \<mapsto>
             OService
               \<lparr>s_ObjectMeta =
                  \<lparr>Name = ''vl3-slice-router-red'', Namespace = ''kubeslice-system'',
                   OwnerReferences = [controllerRef exampleSlice]\<rparr>,
                Selector = labelsForSliceRouterDeployment ''red'',
                Ports = [\<lparr>Port = 5000, port_Name = ''grpc''\<rparr>]\<rparr>]\<rparr>"

section \<open>Properties\<close>

subsection \<open>The client\<close>

lemma Get_response_logged [simp]: "Get_response (logged c x) k = Get_response c k"
  by (simp add: Get_response_def logged_def split: option.splits)

lemma List_response_logged [simp]: "List_response (logged c x) ns sel = List_response c ns sel"
  by (simp add: List_response_def logged_def split: option.splits)

lemma Create_response_logged [simp]: "Create_response (logged c x) ob = Create_response c ob"
  by (simp add: Create_response_def logged_def split: option.splits)

lemma call_error_logged [simp]: "call_error (logged c y) x = call_error c x"
proof (cases x)
  case (CDelete ob)
  then show ?thesis
    by (simp add: Delete_response_def logged_def split: option.splits)
qed simp_all

lemma calls_logged [simp]: "calls (logged c x) = calls c @ [x]"
  by (simp add: logged_def)

lemma objects_logged [simp]: "objects (logged c x) = objects c"
  by (simp add: logged_def)

lemma pods_logged [simp]: "pods (logged c x) = pods c"
  by (simp add: logged_def)

lemma events_logged [simp]: "events (logged c x) = events c"
  by (simp add: logged_def)

text \<open>A key that stores nothing is answered with not-found, unless the call itself fails.\<close>

lemma absent_Get_response:
  "objects c k = None \<Longrightarrow> fault c (CGet k) = None \<Longrightarrow> Get_response c k = Inl NotFound"
  by (simp add: Get_response_def)

lemma client_Create_cases:
  "client_Create c ob =
     (case Create_response c ob of
        Some e \<Rightarrow> (Some e, logged c (CCreate ob))
      | None \<Rightarrow> (None, logged (c\<lparr>objects := (objects c)(key_of ob \<mapsto> ob)\<rparr>) (CCreate ob)))"
  by (simp add: client_Create_def)

subsection \<open>Splitting and joining\<close>

lemma length_Split: "length (strings_Split s sep) = Suc (count_list s sep)"
  by (induction s) (auto split: list.splits)

lemma getClusterPrefixPool_Inr:
  "3 \<le> count_list subnet (CHR ''.'') \<Longrightarrow>
   getClusterPrefixPool subnet oct =
     Inr (strings_Join ((strings_Split subnet (CHR ''.''))[2 := oct, 3 := ''0/24'']) ''.'')"
  by (simp add: getClusterPrefixPool_def length_Split)

subsection \<open>The builders return on a slice with a four-part subnet\<close>

lemma getContainerSpec_Inr:
  "Status_SliceConfig s = Some cfg \<Longrightarrow> 3 \<le> count_list (SliceSubnet cfg) (CHR ''.'') \<Longrightarrow>
   \<exists>ct. getContainerSpecForSliceRouter r s oct dp = Inr ct"
  by (simp add: getContainerSpecForSliceRouter_def getClusterPrefixPool_Inr Let_def)

lemma deploymentForSliceRouter_Inr:
  assumes "Status_SliceConfig s = Some cfg" "3 \<le> count_list (SliceSubnet cfg) (CHR ''.'')"
  shows "\<exists>dep. deploymentForSliceRouter r s oct dp = Inr dep
            \<and> Name (d_ObjectMeta dep) = sliceRouterDeploymentNamePrefix @ slice_Name s
            \<and> Namespace (d_ObjectMeta dep) = slice_Namespace s"
proof -
  obtain ct where "getContainerSpecForSliceRouter r s oct dp = Inr ct"
    using getContainerSpec_Inr [OF assms] by blast
  then show ?thesis
    by (simp add: deploymentForSliceRouter_def Let_def SetControllerReference_def
        split: prod.splits)
qed

subsection \<open>Dataplane detection\<close>

lemma getNsmDataplaneMode_eq:
  "getNsmDataplaneMode c slice =
     ((case List_response c (slice_Namespace slice) [(''app'', nsmVppDataplaneCfgStr)] of
         Inl e \<Rightarrow> Inl e
       | Inr items \<Rightarrow> Inr (if items \<noteq> [] then nsmDataplaneVpp else nsmDataplaneKernel)),
      logged c (CList (slice_Namespace slice) [(''app'', nsmVppDataplaneCfgStr)]))"
  by (simp add: getNsmDataplaneMode_def client_List_def split: sum.splits)

text \<open>The definitions a run on the example objects unfolds.\<close>

lemmas run_defs =
  ReconcileSliceRouter_def deploySliceRouter_def deploySliceRouterSvc_def
  cleanupSliceRouter_def getNsmDataplaneMode_def client_Get_def client_List_def
  client_Create_def client_Delete_def Get_response_def List_response_def
  Create_response_def Delete_response_def logged_def Record_def matches_def
  deploymentKey_def serviceKey_def networkServiceKey_def sliceRouterSvc_def
  SetControllerReference_def deploymentForSliceRouter_def
  getContainerSpecForSliceRouter_def getContainerSpecForSliceRouterSidecar_def
  getSliceRouterSidecarImageAndPullPolicy_def getVolumeSpecForSliceRouter_def
  getClusterPrefixPool_def labelsForSliceRouterDeployment_def
  nsmDataplaneKernel_def nsmDataplaneVpp_def nsmVppDataplaneCfgStr_def
  sliceRouterDeploymentNamePrefix_def PullAlways_def requeue10_def Result_empty_def
  time_Second_def pass_calls_def

lemmas example_defs =
  emptyCluster_def faultyCluster_def vppCluster_def provisionedCluster_def
  exampleSlice_def exampleReconciler_def exampleScheme_def controllerRef_def

section \<open>The claims\<close>

subsection \<open>C1: no subnet, no Deployment\<close>

text \<open>
  Claim C1. When the Get of the router Deployment answers not-found (the Deployment is
  absent) and the slice status has no subnet yet (\<open>SliceConfig\<close> is nil or
  \<open>SliceSubnet\<close> is empty), \<open>ReconcileSliceRouter\<close> returns a result that requeues
  after 10 seconds, a nil error and \<open>changed = true\<close>. The only client call of the pass is
  that Get: no Create is issued, and the cluster is as before but for the log.
\<close>

theorem reconcile_waits_without_subnet:
  assumes "Get_response c (deploymentKey slice) = Inl err" and "IsNotFound err"
    and "case Status_SliceConfig slice of None \<Rightarrow> True | Some cfg \<Rightarrow> SliceSubnet cfg = []"
  shows "ReconcileSliceRouter r c slice =
           (Inr (\<lparr>Requeue = False, RequeueAfter = 10 * time_Second\<rparr>, None, True),
            c\<lparr>calls := calls c @ [CGet (deploymentKey slice)]\<rparr>)"
  using assms by (simp add: ReconcileSliceRouter_def client_Get_def requeue10_def logged_def)

theorem reconcile_waits_without_subnet_witness:
  "ReconcileSliceRouter exampleReconciler emptyCluster
     (exampleSlice\<lparr>Status_SliceConfig := Some \<lparr>SliceSubnet = [], IpamClusterOctet = 0\<rparr>\<rparr>) =
     (Inr (\<lparr>Requeue = False, RequeueAfter = 10000000000\<rparr>, None, True),
      emptyCluster\<lparr>calls := [CGet (KDeployment, ''kubeslice-system'', ''vl3-slice-router-red'')]\<rparr>)"
proof -
  let ?s = "exampleSlice\<lparr>Status_SliceConfig := Some \<lparr>SliceSubnet = [], IpamClusterOctet = 0\<rparr>\<rparr>"
  have g: "Get_response emptyCluster (deploymentKey ?s) = Inl NotFound"
    by (simp add: absent_Get_response emptyCluster_def)
  have n: "IsNotFound NotFound"
    by simp
  have s: "case Status_SliceConfig ?s of None \<Rightarrow> True | Some cfg \<Rightarrow> SliceSubnet cfg = []"
    by simp
  show ?thesis
    using reconcile_waits_without_subnet [OF g n s, of exampleReconciler]
    by (simp add: emptyCluster_def deploymentKey_def exampleSlice_def time_Second_def
        sliceRouterDeploymentNamePrefix_def)
qed

subsection \<open>C2: the dataplane mode\<close>

text \<open>
  Claim C2. When the pod List answers, \<open>getNsmDataplaneMode\<close> returns \<open>"vpp"\<close> exactly
  when the list of pods labelled \<open>app=nsm-vpp-plane\<close> in the slice's namespace holds at
  least one pod, and \<open>"kernel"\<close> exactly when that list is empty. The answer of the List
  is the pods of the cluster in that namespace with that label.
\<close>

theorem dataplane_mode_by_vpp_pods:
  assumes "List_response c (slice_Namespace slice) [(''app'', ''nsm-vpp-plane'')] = Inr items"
  shows "(fst (getNsmDataplaneMode c slice) = Inr ''vpp'' \<longleftrightarrow> items \<noteq> [])
       \<and> (fst (getNsmDataplaneMode c slice) = Inr ''kernel'' \<longleftrightarrow> items = [])
       \<and> items = filter (\<lambda>p. pod_Namespace p = slice_Namespace slice
                              \<and> map_of (pod_Labels p) ''app'' = Some ''nsm-vpp-plane'') (pods c)"
proof -
  have m: "matches (slice_Namespace slice) [(''app'', ''nsm-vpp-plane'')] =
             (\<lambda>p. pod_Namespace p = slice_Namespace slice
                   \<and> map_of (pod_Labels p) ''app'' = Some ''nsm-vpp-plane'')"
    by (rule ext) (simp add: matches_def)
  have "items = filter (matches (slice_Namespace slice) [(''app'', ''nsm-vpp-plane'')]) (pods c)"
    using assms by (simp add: List_response_def split: option.splits)
  then have items: "items = filter (\<lambda>p. pod_Namespace p = slice_Namespace slice
                       \<and> map_of (pod_Labels p) ''app'' = Some ''nsm-vpp-plane'') (pods c)"
    by (simp only: m)
  have mode: "fst (getNsmDataplaneMode c slice) = Inr (if items \<noteq> [] then ''vpp'' else ''kernel'')"
    using assms
    by (simp add: getNsmDataplaneMode_eq nsmVppDataplaneCfgStr_def nsmDataplaneVpp_def
        nsmDataplaneKernel_def)
  show ?thesis
    using items by (simp add: mode)
qed

theorem dataplane_mode_by_vpp_pods_witness:
  "fst (getNsmDataplaneMode vppCluster exampleSlice) = Inr ''vpp''
   \<and> fst (getNsmDataplaneMode emptyCluster exampleSlice) = Inr ''kernel''"
proof -
  let ?p = "\<lparr>pod_Name = ''nsm-vpp-forwarder'', pod_Namespace = ''kubeslice-system'',
             pod_Labels = [(''app'', ''nsm-vpp-plane'')]\<rparr>"
  have v: "List_response vppCluster (slice_Namespace exampleSlice) [(''app'', ''nsm-vpp-plane'')]
             = Inr [?p]"
    by (simp add: List_response_def matches_def example_defs)
  have e: "List_response emptyCluster (slice_Namespace exampleSlice) [(''app'', ''nsm-vpp-plane'')]
             = Inr []"
    by (simp add: List_response_def example_defs)
  show ?thesis
    using dataplane_mode_by_vpp_pods [OF v] dataplane_mode_by_vpp_pods [OF e]
    by simp
qed

subsection \<open>C3: a provisioned slice is left alone\<close>

text \<open>
  Claim C3. When both the Get of the router Deployment (in the slice's namespace) and the
  Get of the router Service (under the derived name) answer with an object,
  \<open>ReconcileSliceRouter\<close> returns the empty result, a nil error and \<open>changed = false\<close>.
  The pass issues these two Gets and nothing else: no Create, no Delete, no event, and
  the stored objects and pods are unchanged.
\<close>

theorem reconcile_provisioned_is_noop:
  assumes "Get_response c (deploymentKey slice) = Inr d"
    and "Get_response c (serviceKey r slice) = Inr s"
  shows "ReconcileSliceRouter r c slice =
           (Inr (\<lparr>Requeue = False, RequeueAfter = 0\<rparr>, None, False),
            c\<lparr>calls := calls c @ [CGet (deploymentKey slice), CGet (serviceKey r slice)]\<rparr>)"
  using assms
  by (simp add: ReconcileSliceRouter_def client_Get_def Result_empty_def)
     (simp add: logged_def)

theorem reconcile_provisioned_is_noop_witness:
  "ReconcileSliceRouter exampleReconciler provisionedCluster exampleSlice =
     (Inr (\<lparr>Requeue = False, RequeueAfter = 0\<rparr>, None, False),
      provisionedCluster
        \<lparr>calls := [CGet (KDeployment, ''kubeslice-system'', ''vl3-slice-router-red''),
                   CGet (KService, ''kubeslice-system'', ''vl3-slice-router-red'')]\<rparr>)"
proof -
  obtain d where d: "Get_response provisionedCluster (deploymentKey exampleSlice) = Inr d"
    by (simp add: Get_response_def deploymentKey_def sliceRouterDeploymentNamePrefix_def
        example_defs)
  obtain s where s: "Get_response provisionedCluster (serviceKey exampleReconciler exampleSlice) = Inr s"
    by (simp add: Get_response_def serviceKey_def sliceRouterDeploymentNamePrefix_def
        example_defs)
  have "calls provisionedCluster = []"
    by (simp add: example_defs)
  then show ?thesis
    using reconcile_provisioned_is_noop [OF d s]
    by (simp add: deploymentKey_def serviceKey_def sliceRouterDeploymentNamePrefix_def
        exampleSlice_def exampleReconciler_def)
qed

subsection \<open>C4: a slice with a subnet gets its Deployment\<close>

text \<open>
  Claim C4, as stated, promises the Deployment for every slice whose subnet is populated.
  It fails on a slice whose subnet has fewer than four dot-separated parts: the subnet
  \<open>"10.1"\<close> is not empty, the Deployment is absent, and the pass panics in
  \<open>getClusterPrefixPool\<close> after the Get and the List, with no Create issued. It also
  fails when the pod List fails: the pass returns that error and creates nothing.
\<close>

theorem reconcile_creates_router_counterexample:
  "Status_SliceConfig
       (exampleSlice\<lparr>Status_SliceConfig := Some \<lparr>SliceSubnet = ''10.1'', IpamClusterOctet = 7\<rparr>\<rparr>)
     = Some \<lparr>SliceSubnet = ''10.1'', IpamClusterOctet = 7\<rparr>
   \<and> objects emptyCluster
       (deploymentKey
          (exampleSlice\<lparr>Status_SliceConfig := Some \<lparr>SliceSubnet = ''10.1'', IpamClusterOctet = 7\<rparr>\<rparr>))
     = None
   \<and> ReconcileSliceRouter exampleReconciler emptyCluster
       (exampleSlice\<lparr>Status_SliceConfig := Some \<lparr>SliceSubnet = ''10.1'', IpamClusterOctet = 7\<rparr>\<rparr>)
     = (Inl IndexOutOfRange,
        emptyCluster\<lparr>calls :=
          [CGet (KDeployment, ''kubeslice-system'', ''vl3-slice-router-red''),
           CList ''kubeslice-system'' [(''app'', ''nsm-vpp-plane'')]]\<rparr>)
   \<and> ReconcileSliceRouter exampleReconciler faultyCluster exampleSlice
     = (Inr (\<lparr>Requeue = False, RequeueAfter = 0\<rparr>, Some (ServerError ''timeout''), True),
        faultyCluster\<lparr>calls :=
          [CGet (KDeployment, ''kubeslice-system'', ''vl3-slice-router-red''),
           CList ''kubeslice-system'' [(''app'', ''nsm-vpp-plane'')]]\<rparr>)"
  by (simp add: run_defs example_defs)

text \<open>
  Claim C4, amended. For every slice whose status subnet has at least four dot-separated
  parts (three dots or more) and whose router Deployment is absent, in a cluster whose
  client answers every call, \<open>ReconcileSliceRouter\<close> issues exactly one Create, of a
  Deployment named \<open>"vl3-slice-router-"\<close> followed by the slice name in the slice's
  namespace, which is then the one object added to the cluster, and returns a result
  that requeues after 10 seconds with a nil error and \<open>changed = true\<close>.
\<close>

theorem reconcile_creates_router:
  assumes cfg: "Status_SliceConfig slice = Some cfg"
    and subnet: "3 \<le> count_list (SliceSubnet cfg) (CHR ''.'')"
    and absent: "objects c (deploymentKey slice) = None"
    and healthy: "\<forall>x. fault c x = None"
  shows "\<exists>dep. ReconcileSliceRouter r c slice =
             (Inr (\<lparr>Requeue = False, RequeueAfter = 10 * time_Second\<rparr>, None, True),
              c\<lparr>objects := (objects c)(deploymentKey slice \<mapsto> ODeployment dep),
                calls := calls c @
                  [CGet (deploymentKey slice),
                   CList (slice_Namespace slice) [(''app'', ''nsm-vpp-plane'')],
                   CCreate (ODeployment dep)]\<rparr>)
           \<and> Name (d_ObjectMeta dep) = ''vl3-slice-router-'' @ slice_Name slice
           \<and> Namespace (d_ObjectMeta dep) = slice_Namespace slice"
proof -
  let ?sel = "[(''app'', nsmVppDataplaneCfgStr)]"
  let ?c1 = "logged c (CGet (deploymentKey slice))"
  let ?c2 = "logged ?c1 (CList (slice_Namespace slice) ?sel)"
  obtain items where l: "List_response c (slice_Namespace slice) ?sel = Inr items"
    using healthy by (simp add: List_response_def)
  define dp where "dp = (if items \<noteq> [] then nsmDataplaneVpp else nsmDataplaneKernel)"
  have dp: "dp = nsmDataplaneKernel \<or> dp = nsmDataplaneVpp"
    by (simp add: dp_def)
  have mode: "getNsmDataplaneMode ?c1 slice = (Inr dp, ?c2)"
    by (simp add: getNsmDataplaneMode_eq l dp_def)
  obtain dep
    where dep: "deploymentForSliceRouter r slice (strconv_Itoa (IpamClusterOctet cfg)) dp = Inr dep"
      and nm: "Name (d_ObjectMeta dep) = sliceRouterDeploymentNamePrefix @ slice_Name slice"
      and ns: "Namespace (d_ObjectMeta dep) = slice_Namespace slice"
    using deploymentForSliceRouter_Inr [OF cfg subnet] by blast
  let ?c3 = "logged (?c2\<lparr>objects := (objects ?c2)(deploymentKey slice \<mapsto> ODeployment dep)\<rparr>)
               (CCreate (ODeployment dep))"
  have k: "key_of (ODeployment dep) = deploymentKey slice"
    by (simp add: nm ns deploymentKey_def)
  have cr: "client_Create ?c2 (ODeployment dep) = (None, ?c3)"
    using healthy absent unfolding client_Create_def Create_response_def k
    by (simp add: logged_def)
  have deploy: "deploySliceRouter r ?c1 slice = (Inr None, ?c3)"
    using dp by (auto simp add: deploySliceRouter_def mode cfg dep cr)
  have g: "Get_response c (deploymentKey slice) = Inl NotFound"
    using healthy absent by (simp add: Get_response_def)
  have ne: "SliceSubnet cfg \<noteq> []"
    using subnet by auto
  have "ReconcileSliceRouter r c slice = (Inr (requeue10, None, True), ?c3)"
    by (simp add: ReconcileSliceRouter_def client_Get_def g cfg ne deploy)
  then show ?thesis
    using nm ns
    by (intro exI [of _ dep])
       (simp add: logged_def requeue10_def nsmVppDataplaneCfgStr_def
          sliceRouterDeploymentNamePrefix_def)
qed

theorem reconcile_creates_router_witness:
  "\<exists>dep. ReconcileSliceRouter exampleReconciler vppCluster exampleSlice =
           (Inr (\<lparr>Requeue = False, RequeueAfter = 10000000000\<rparr>, None, True),
            vppCluster
              \<lparr>objects := [(KDeployment, ''kubeslice-system'', ''vl3-slice-router-red'')
                             \<mapsto> ODeployment dep],
               calls := [CGet (KDeployment, ''kubeslice-system'', ''vl3-slice-router-red''),
                         CList ''kubeslice-system'' [(''app'', ''nsm-vpp-plane'')],
                         CCreate (ODeployment dep)]\<rparr>)
         \<and> Name (d_ObjectMeta dep) = ''vl3-slice-router-red''
         \<and> Namespace (d_ObjectMeta dep) = ''kubeslice-system''"
proof -
  have cfg: "Status_SliceConfig exampleSlice
               = Some \<lparr>SliceSubnet = ''10.1.0.0/16'', IpamClusterOctet = 7\<rparr>"
    by (simp add: exampleSlice_def)
  have subnet: "3 \<le> count_list (SliceSubnet \<lparr>SliceSubnet = ''10.1.0.0/16'', IpamClusterOctet = 7\<rparr>)
                      (CHR ''.'')"
    by simp
  have absent: "objects vppCluster (deploymentKey exampleSlice) = None"
    by (simp add: example_defs)
  have healthy: "\<forall>x. fault vppCluster x = None"
    by (simp add: example_defs)
  have o: "objects vppCluster = Map.empty" and c: "calls vppCluster = []"
    by (simp_all add: example_defs)
  show ?thesis
    using reconcile_creates_router [OF cfg subnet absent healthy, of exampleReconciler]
    by (simp add: o c deploymentKey_def sliceRouterDeploymentNamePrefix_def exampleSlice_def
        time_Second_def)
qed

subsection \<open>C5: cleaning up what is not there\<close>

text \<open>
  Claim C5. When the Get of the network-service object named \<open>"vl3-service-"\<close> followed
  by the slice name, in the control-plane namespace, answers not-found,
  \<open>cleanupSliceRouter\<close> returns nil. That Get is the only call it issues: no Delete.
\<close>

theorem cleanup_absent_is_success:
  assumes "Get_response c (networkServiceKey r sliceName) = Inl err" and "IsNotFound err"
  shows "cleanupSliceRouter r c sliceName =
           (None,
            c\<lparr>calls := calls c @
              [CGet (KNetworkService, ControlPlaneNamespace r, ''vl3-service-'' @ sliceName)]\<rparr>)"
  using assms
  by (simp add: cleanupSliceRouter_def client_Get_def logged_def networkServiceKey_def)

theorem cleanup_absent_is_success_witness:
  "cleanupSliceRouter exampleReconciler provisionedCluster ''red'' =
     (None,
      provisionedCluster
        \<lparr>calls := [CGet (KNetworkService, ''kubeslice-system'', ''vl3-service-red'')]\<rparr>)"
proof -
  have g: "Get_response provisionedCluster (networkServiceKey exampleReconciler ''red'')
             = Inl NotFound"
    by (simp add: Get_response_def networkServiceKey_def example_defs)
  have n: "IsNotFound NotFound"
    by simp
  have "calls provisionedCluster = []"
    by (simp add: example_defs)
  then show ?thesis
    using cleanup_absent_is_success [OF g n]
    by (simp add: exampleReconciler_def)
qed

subsection \<open>C6: client errors reach the caller\<close>

text \<open>
  What \<open>deploySliceRouter\<close> and \<open>deploySliceRouterSvc\<close> do when a call they issue is
  answered with an error: they return it, the call is their last one, and nothing is
  stored. A failed Create is also reported as a warning event.
\<close>

lemma deploySliceRouter_error:
  assumes "deploySliceRouter r c slice = (out, c')"
    and "x \<in> set (pass_calls c c')" and "call_error c x = Some e"
  shows "out = Inr (Some e) \<and> objects c' = objects c \<and> pods c' = pods c
         \<and> last (calls c') = x \<and> distinct (pass_calls c c')
         \<and> events c' = events c @
              (if is_write x
               then [\<lparr>ev_Object = slice_Name slice, ev_EventType = ''Warning'',
                      ev_Reason = ''Error'', ev_Message = ''Error creating slice router''\<rparr>]
               else [])"
  using assms
  by (auto simp add: deploySliceRouter_def getNsmDataplaneMode_eq client_Create_cases
        pass_calls_def Record_def
      split: sum.splits if_splits option.splits)

lemma deploySliceRouterSvc_error:
  assumes "deploySliceRouterSvc r c slice = (out, c')"
    and "x \<in> set (pass_calls c c')" and "call_error c x = Some e"
  shows "out = Some e \<and> objects c' = objects c \<and> pods c' = pods c
         \<and> last (calls c') = x \<and> distinct (pass_calls c c')
         \<and> events c' = events c @
              [\<lparr>ev_Object = slice_Name slice, ev_EventType = ''Warning'',
                ev_Reason = ''Error'',
                ev_Message = ''Error creating service for slice router''\<rparr>]"
  using assms
  by (auto simp add: deploySliceRouterSvc_def client_Create_cases
        pass_calls_def Record_def Let_def
      split: sum.splits if_splits option.splits prod.splits)

lemma deploySliceRouter_calls:
  "deploySliceRouter r c slice = (out, c') \<Longrightarrow>
   \<exists>new. calls c' = calls c @ new \<and> (\<forall>y \<in> set new. \<not> is_Get y)"
  by (auto simp add: deploySliceRouter_def getNsmDataplaneMode_eq client_Create_cases Record_def
      split: sum.splits if_splits option.splits)

lemma deploySliceRouterSvc_calls:
  "deploySliceRouterSvc r c slice = (out, c') \<Longrightarrow>
   \<exists>new. calls c' = calls c @ new \<and> (\<forall>y \<in> set new. \<not> is_Get y)"
  by (auto simp add: deploySliceRouterSvc_def client_Create_cases Record_def Let_def
      split: sum.splits if_splits option.splits prod.splits)

text \<open>
  Claim C6. Let \<open>x\<close> be any client call that a pass of \<open>ReconcileSliceRouter\<close> issues
  (the pod List of \<open>getNsmDataplaneMode\<close>, a Get, a Create) and that the client answers
  with an error \<open>e\<close>, other than a Get answered not-found. Then the pass returns exactly
  \<open>e\<close>, with the empty result and \<open>changed = true\<close>; \<open>x\<close> is the last call of the pass
  and no call of the pass is issued twice (nothing is retried); the stored objects and
  the pods are unchanged. The one trace left beside the log is the warning event that
  reports a failed Create.
\<close>

theorem reconcile_surfaces_client_errors:
  assumes run: "ReconcileSliceRouter r c slice = (out, c')"
    and x: "x \<in> set (pass_calls c c')"
    and e: "call_error c x = Some e"
    and nf: "is_Get x \<longrightarrow> \<not> IsNotFound e"
  shows "out = Inr (\<lparr>Requeue = False, RequeueAfter = 0\<rparr>, Some e, True)
         \<and> objects c' = objects c \<and> pods c' = pods c
         \<and> last (calls c') = x \<and> distinct (pass_calls c c')
         \<and> (if is_write x
             then \<exists>msg. events c' = events c @
                    [\<lparr>ev_Object = slice_Name slice, ev_EventType = ''Warning'',
                      ev_Reason = ''Error'', ev_Message = msg\<rparr>]
             else events c' = events c)"
proof (cases "Get_response c (deploymentKey slice)")
  case (Inl err)
  show ?thesis
  proof (cases "IsNotFound err")
    case False
    with Inl run x e show ?thesis
      by (auto simp add: ReconcileSliceRouter_def client_Get_def pass_calls_def
          Result_empty_def)
  next
    case True
    show ?thesis
    proof (cases "case Status_SliceConfig slice of None \<Rightarrow> True | Some cfg \<Rightarrow> SliceSubnet cfg = []")
      case True
      with Inl \<open>IsNotFound err\<close> run x e nf show ?thesis
        by (auto simp add: ReconcileSliceRouter_def client_Get_def pass_calls_def)
    next
      case False
      let ?c1 = "logged c (CGet (deploymentKey slice))"
      obtain o2 c2 where d: "deploySliceRouter r ?c1 slice = (o2, c2)"
        by (cases "deploySliceRouter r ?c1 slice") auto
      from deploySliceRouter_calls [OF d] obtain new
        where new: "calls c2 = calls ?c1 @ new" "\<forall>y \<in> set new. \<not> is_Get y"
        by blast
      have c': "c' = c2"
        using Inl True False run d
        by (auto simp add: ReconcileSliceRouter_def client_Get_def
            split: sum.splits option.splits)
      have pc: "pass_calls c c' = CGet (deploymentKey slice) # new" "pass_calls ?c1 c2 = new"
        using new c' by (simp_all add: pass_calls_def)
      have "x \<noteq> CGet (deploymentKey slice)"
        using Inl True e nf by auto
      with x pc have xin: "x \<in> set (pass_calls ?c1 c2)"
        by simp
      have e1: "call_error ?c1 x = Some e"
        using e by simp
      from deploySliceRouter_error [OF d xin e1]
      have r: "o2 = Inr (Some e)" "objects c2 = objects c" "pods c2 = pods c"
        "last (calls c2) = x" "distinct new"
        "events c2 = events c @
           (if is_write x
            then [\<lparr>ev_Object = slice_Name slice, ev_EventType = ''Warning'',
                   ev_Reason = ''Error'', ev_Message = ''Error creating slice router''\<rparr>]
            else [])"
        using pc by simp_all
      have "out = Inr (Result_empty, Some e, True)"
        using Inl True False run d r(1)
        by (auto simp add: ReconcileSliceRouter_def client_Get_def
            split: sum.splits option.splits)
      moreover have "distinct (pass_calls c c')"
        using pc new r(5) by auto
      ultimately show ?thesis
        using r c' by (simp add: Result_empty_def)
    qed
  qed
next
  case (Inr d)
  note dk = Inr
  let ?c1 = "logged c (CGet (deploymentKey slice))"
  have kne: "deploymentKey slice \<noteq> serviceKey r slice"
    by (simp add: deploymentKey_def serviceKey_def)
  show ?thesis
  proof (cases "Get_response c (serviceKey r slice)")
    case (Inr s)
    with dk run x e show ?thesis
      by (auto simp add: ReconcileSliceRouter_def client_Get_def pass_calls_def)
  next
    case (Inl err)
    show ?thesis
    proof (cases "IsNotFound err")
      case False
      with Inl dk run x e kne show ?thesis
        by (auto simp add: ReconcileSliceRouter_def client_Get_def pass_calls_def
            Result_empty_def)
    next
      case True
      show ?thesis
      proof (cases "Status_SliceConfig slice")
        case None
        with Inl dk True run x e nf kne show ?thesis
          by (auto simp add: ReconcileSliceRouter_def client_Get_def pass_calls_def)
      next
        case (Some cfg)
        let ?c2 = "logged ?c1 (CGet (serviceKey r slice))"
        obtain o3 c3 where d: "deploySliceRouterSvc r ?c2 slice = (o3, c3)"
          by (cases "deploySliceRouterSvc r ?c2 slice") auto
        from deploySliceRouterSvc_calls [OF d] obtain new
          where new: "calls c3 = calls ?c2 @ new" "\<forall>y \<in> set new. \<not> is_Get y"
          by blast
        have c': "c' = c3"
          using Inl dk True Some run d
          by (auto simp add: ReconcileSliceRouter_def client_Get_def split: option.splits)
        have pc: "pass_calls c c' = CGet (deploymentKey slice) # CGet (serviceKey r slice) # new"
          "pass_calls ?c2 c3 = new"
          using new c' by (simp_all add: pass_calls_def)
        have "x \<noteq> CGet (deploymentKey slice)" "x \<noteq> CGet (serviceKey r slice)"
          using Inl dk True e nf by auto
        with x pc have xin: "x \<in> set (pass_calls ?c2 c3)"
          by simp
        have e1: "call_error ?c2 x = Some e"
          using e by simp
        have w: "is_write x"
          using xin d
          by (auto simp add: deploySliceRouterSvc_def client_Create_cases pass_calls_def
              Record_def Let_def split: option.splits prod.splits)
        from deploySliceRouterSvc_error [OF d xin e1]
        have r: "o3 = Some e" "objects c3 = objects c" "pods c3 = pods c"
          "last (calls c3) = x" "distinct new"
          "events c3 = events c @
             [\<lparr>ev_Object = slice_Name slice, ev_EventType = ''Warning'',
               ev_Reason = ''Error'',
               ev_Message = ''Error creating service for slice router''\<rparr>]"
          using pc by simp_all
        have "out = Inr (Result_empty, Some e, True)"
          using Inl dk True Some run d r(1)
          by (auto simp add: ReconcileSliceRouter_def client_Get_def split: option.splits)
        moreover have "distinct (pass_calls c c')"
          using pc new r(5) kne by auto
        ultimately show ?thesis
          using r c' w by (simp add: Result_empty_def)
      qed
    qed
  qed
qed

theorem reconcile_surfaces_client_errors_witness:
  "fst (ReconcileSliceRouter exampleReconciler faultyCluster exampleSlice)
     = Inr (\<lparr>Requeue = False, RequeueAfter = 0\<rparr>, Some (ServerError ''timeout''), True)
   \<and> objects (snd (ReconcileSliceRouter exampleReconciler faultyCluster exampleSlice))
     = objects faultyCluster
   \<and> last (calls (snd (ReconcileSliceRouter exampleReconciler faultyCluster exampleSlice)))
     = CList ''kubeslice-system'' [(''app'', ''nsm-vpp-plane'')]
   \<and> events (snd (ReconcileSliceRouter exampleReconciler faultyCluster exampleSlice))
     = events faultyCluster"
proof -
  let ?x = "CList ''kubeslice-system'' [(''app'', ''nsm-vpp-plane'')]"
  let ?run = "ReconcileSliceRouter exampleReconciler faultyCluster exampleSlice"
  have run: "?run = (fst ?run, snd ?run)"
    by simp
  have calls: "pass_calls faultyCluster (snd ?run)
                 = [CGet (KDeployment, ''kubeslice-system'', ''vl3-slice-router-red''), ?x]"
    by (simp add: run_defs example_defs)
  have x: "?x \<in> set (pass_calls faultyCluster (snd ?run))"
    unfolding calls by simp
  have e: "call_error faultyCluster ?x = Some (ServerError ''timeout'')"
    by (simp add: List_response_def example_defs)
  have nf: "is_Get ?x \<longrightarrow> \<not> IsNotFound (ServerError ''timeout'')"
    by simp
  show ?thesis
    using reconcile_surfaces_client_errors [OF run x e nf]
    by simp
qed

text \<open>The same for the List on its own: \<open>getNsmDataplaneMode\<close> hands its error on.\<close>

lemma getNsmDataplaneMode_error:
  "List_response c (slice_Namespace slice) [(''app'', ''nsm-vpp-plane'')] = Inl e \<Longrightarrow>
   getNsmDataplaneMode c slice =
     (Inl e, c\<lparr>calls := calls c @ [CList (slice_Namespace slice) [(''app'', ''nsm-vpp-plane'')]]\<rparr>)"
  by (simp add: getNsmDataplaneMode_eq nsmVppDataplaneCfgStr_def logged_def)

subsection \<open>C7: what the dataplane mode adds to the router\<close>

text \<open>
  Claim C7. The router container always starts with the same six variables. What follows
  them, the volume mounts of the container and the volumes after the shared one depend
  on the dataplane mode alone: in kernel mode exactly \<open>IP_ADDRESS\<close>, \<open>DST_ROUTES\<close>,
  \<open>DNS_NAMESERVERS\<close> and \<open>DNS_DOMAINS\<close>, no mount and no further volume; in VPP mode
  exactly \<open>NSE_IPAM_UNIQUE_OCTET\<close>, the mount of \<open>universal-cnf-config-volume\<close> and the
  ConfigMap volume of that name; in no other mode anything. The Deployment holds this
  container, the sidecar and these volumes, and never carries \<open>IP_ADDRESS\<close> together
  with \<open>NSE_IPAM_UNIQUE_OCTET\<close>. (The builders return for a slice whose subnet has four
  parts; see C9.)
\<close>

theorem router_extras_by_dataplane:
  assumes cfg: "Status_SliceConfig s = Some cfg"
    and subnet: "3 \<le> count_list (SliceSubnet cfg) (CHR ''.'')"
  shows "\<exists>ct pool dep.
           getContainerSpecForSliceRouter r s oct dp = Inr ct
         \<and> getClusterPrefixPool (SliceSubnet cfg) oct = Inr pool
         \<and> take 6 (Env ct) =
             [(''DATAPLANE'', dp),
              (''ENDPOINT_NETWORK_SERVICE'', ''vl3-service-'' @ slice_Name s),
              (''ENDPOINT_LABELS'', ''app=vl3-nse-'' @ slice_Name s),
              (''TRACER_ENABLED'', ''true''),
              (''NSREGISTRY_ADDR'', ''nsmgr.'' @ ControlPlaneNamespace r),
              (''NSREGISTRY_PORT'', ''5000'')]
         \<and> hd (getVolumeSpecForSliceRouter s dp)
             = \<lparr>v_Name = ''shared-volume'', v_VolumeSource = EmptyDir\<rparr>
         \<and> (drop 6 (Env ct), VolumeMounts ct, tl (getVolumeSpecForSliceRouter s dp)) =
             (if dp = ''kernel'' then
                ([(''IP_ADDRESS'', pool),
                  (''DST_ROUTES'', SliceSubnet cfg),
                  (''DNS_NAMESERVERS'', Status_DNSIP s),
                  (''DNS_DOMAINS'', ''slice.local'')],
                 [],
                 [])
              else if dp = ''vpp'' then
                ([(''NSE_IPAM_UNIQUE_OCTET'', oct)],
                 [\<lparr>vm_Name = ''universal-cnf-config-volume'',
                   vm_MountPath = ''/etc/universal-cnf/config.yaml'',
                   vm_SubPath = ''config.yaml''\<rparr>],
                 [\<lparr>v_Name = ''universal-cnf-config-volume'',
                   v_VolumeSource = ConfigMap (''ucnf-vl3-service-'' @ slice_Name s)\<rparr>])
              else ([], [], []))
         \<and> deploymentForSliceRouter r s oct dp = Inr dep
         \<and> Containers dep = [ct, getContainerSpecForSliceRouterSidecar r dp]
         \<and> Volumes dep = getVolumeSpecForSliceRouter s dp
         \<and> \<not> (''IP_ADDRESS'' \<in> set (map fst (concat (map Env (Containers dep))))
               \<and> ''NSE_IPAM_UNIQUE_OCTET'' \<in> set (map fst (concat (map Env (Containers dep)))))"
proof -
  let ?pool = "strings_Join ((strings_Split (SliceSubnet cfg) (CHR ''.''))[2 := oct, 3 := ''0/24'']) ''.''"
  have pool: "getClusterPrefixPool (SliceSubnet cfg) oct = Inr ?pool"
    using subnet by (rule getClusterPrefixPool_Inr)
  obtain ct where ct: "getContainerSpecForSliceRouter r s oct dp = Inr ct"
    using getContainerSpec_Inr [OF cfg subnet] by blast
  obtain dep where dep: "deploymentForSliceRouter r s oct dp = Inr dep"
    using deploymentForSliceRouter_Inr [OF cfg subnet] by blast
  have env: "Env ct =
      [(''DATAPLANE'', dp),
       (''ENDPOINT_NETWORK_SERVICE'', ''vl3-service-'' @ slice_Name s),
       (''ENDPOINT_LABELS'', ''app=vl3-nse-'' @ slice_Name s),
       (''TRACER_ENABLED'', ''true''),
       (''NSREGISTRY_ADDR'', ''nsmgr.'' @ ControlPlaneNamespace r),
       (''NSREGISTRY_PORT'', ''5000'')] @
      (if dp = ''kernel'' then
         [(''IP_ADDRESS'', ?pool), (''DST_ROUTES'', SliceSubnet cfg),
          (''DNS_NAMESERVERS'', Status_DNSIP s), (''DNS_DOMAINS'', ''slice.local'')]
       else if dp = ''vpp'' then [(''NSE_IPAM_UNIQUE_OCTET'', oct)]
       else [])"
    using ct
    by (auto simp add: getContainerSpecForSliceRouter_def cfg pool Let_def
        nsmDataplaneKernel_def nsmDataplaneVpp_def)
  have mounts: "VolumeMounts ct =
      (if dp = ''vpp'' then
         [\<lparr>vm_Name = ''universal-cnf-config-volume'',
           vm_MountPath = ''/etc/universal-cnf/config.yaml'',
           vm_SubPath = ''config.yaml''\<rparr>]
       else [])"
    using ct
    by (auto simp add: getContainerSpecForSliceRouter_def cfg pool Let_def
        nsmDataplaneKernel_def nsmDataplaneVpp_def)
  have vols: "getVolumeSpecForSliceRouter s dp =
      \<lparr>v_Name = ''shared-volume'', v_VolumeSource = EmptyDir\<rparr> #
      (if dp = ''vpp'' then
         [\<lparr>v_Name = ''universal-cnf-config-volume'',
           v_VolumeSource = ConfigMap (''ucnf-vl3-service-'' @ slice_Name s)\<rparr>]
       else [])"
    by (simp add: getVolumeSpecForSliceRouter_def nsmDataplaneVpp_def)
  have d1: "Containers dep = [ct, getContainerSpecForSliceRouterSidecar r dp]"
    and d2: "Volumes dep = getVolumeSpecForSliceRouter s dp"
    using dep ct by (auto simp add: deploymentForSliceRouter_def Let_def)
  have side: "Env (getContainerSpecForSliceRouterSidecar r d)
                = [(''DATAPLANE'', d), (''POD_TYPE'', ''SLICEROUTER_POD'')]" for d
    by (simp add: getContainerSpecForSliceRouterSidecar_def split: prod.splits)
  have excl: "\<not> (''IP_ADDRESS'' \<in> set (map fst (concat (map Env (Containers dep))))
               \<and> ''NSE_IPAM_UNIQUE_OCTET'' \<in> set (map fst (concat (map Env (Containers dep)))))"
  proof (cases "dp = ''kernel''")
    case True
    then show ?thesis
      by (simp add: d1 side env)
  next
    case False
    then show ?thesis
      by (cases "dp = ''vpp''") (simp_all add: d1 side env)
  qed
  show ?thesis
    using ct pool dep d1 d2 excl
    by (intro exI [of _ ct] exI [of _ ?pool] exI [of _ dep]) (simp add: env mounts vols)
qed

theorem router_extras_by_dataplane_witness:
  "\<exists>ct dep.
      getContainerSpecForSliceRouter exampleReconciler exampleSlice ''7'' ''kernel'' = Inr ct
    \<and> drop 6 (Env ct) =
        [(''IP_ADDRESS'', ''10.1.7.0/24''), (''DST_ROUTES'', ''10.1.0.0/16''),
         (''DNS_NAMESERVERS'', ''10.0.0.10''), (''DNS_DOMAINS'', ''slice.local'')]
    \<and> VolumeMounts ct = []
    \<and> getVolumeSpecForSliceRouter exampleSlice ''kernel''
        = [\<lparr>v_Name = ''shared-volume'', v_VolumeSource = EmptyDir\<rparr>]
    \<and> deploymentForSliceRouter exampleReconciler exampleSlice ''7'' ''kernel'' = Inr dep
    \<and> Containers dep = [ct, getContainerSpecForSliceRouterSidecar exampleReconciler ''kernel'']"
proof -
  have cfg: "Status_SliceConfig exampleSlice
               = Some \<lparr>SliceSubnet = ''10.1.0.0/16'', IpamClusterOctet = 7\<rparr>"
    by (simp add: exampleSlice_def)
  have subnet: "3 \<le> count_list (SliceSubnet \<lparr>SliceSubnet = ''10.1.0.0/16'', IpamClusterOctet = 7\<rparr>)
                      (CHR ''.'')"
    by simp
  have pool: "getClusterPrefixPool ''10.1.0.0/16'' ''7'' = Inr ''10.1.7.0/24''"
    by (simp add: getClusterPrefixPool_def)
  have vols: "getVolumeSpecForSliceRouter exampleSlice ''kernel''
                = [\<lparr>v_Name = ''shared-volume'', v_VolumeSource = EmptyDir\<rparr>]"
    by (simp add: getVolumeSpecForSliceRouter_def nsmDataplaneVpp_def)
  from router_extras_by_dataplane [OF cfg subnet, of exampleReconciler "''7''" "''kernel''"]
  obtain ct p dep where
    "getContainerSpecForSliceRouter exampleReconciler exampleSlice ''7'' ''kernel'' = Inr ct"
    "getClusterPrefixPool ''10.1.0.0/16'' ''7'' = Inr p"
    "drop 6 (Env ct) =
       [(''IP_ADDRESS'', p), (''DST_ROUTES'', ''10.1.0.0/16''),
        (''DNS_NAMESERVERS'', Status_DNSIP exampleSlice), (''DNS_DOMAINS'', ''slice.local'')]"
    "VolumeMounts ct = []"
    "deploymentForSliceRouter exampleReconciler exampleSlice ''7'' ''kernel'' = Inr dep"
    "Containers dep = [ct, getContainerSpecForSliceRouterSidecar exampleReconciler ''kernel'']"
    by auto
  then show ?thesis
    using vols by (auto simp add: pool exampleSlice_def)
qed

subsection \<open>C8: the router Service\<close>

text \<open>
  Claim C8. \<open>deploySliceRouterSvc\<close> builds one Service: its name is
  \<open>"vl3-slice-router-"\<close> followed by the slice name, its one port is 5000, named
  \<open>"grpc"\<close>, and its selector is \<open>labelsForSliceRouterDeployment\<close> of the slice name. Any
  Deployment that \<open>deploymentForSliceRouter\<close> builds for the slice has the same name and
  selects and carries the same labels. \<open>SetControllerReference\<close> is called on the Service
  for the Slice before the Create: when it fails nothing is created, and when it
  succeeds the one call issued is the Create of the Service with the owner references
  that call left.
\<close>

theorem router_service_shape:
  assumes run: "deploySliceRouterSvc r c slice = (err, c')"
  shows "\<exists>svc.
           Name (s_ObjectMeta svc) = ''vl3-slice-router-'' @ slice_Name slice
         \<and> Namespace (s_ObjectMeta svc) = ControlPlaneNamespace r
         \<and> Ports svc = [\<lparr>Port = 5000, port_Name = ''grpc''\<rparr>]
         \<and> Selector svc = labelsForSliceRouterDeployment (slice_Name slice)
         \<and> OwnerReferences (s_ObjectMeta svc)
             = snd (Scheme r slice (s_ObjectMeta (sliceRouterSvc r slice)))
         \<and> pass_calls c c' =
             (if fst (Scheme r slice (s_ObjectMeta (sliceRouterSvc r slice))) = None
              then [CCreate (OService svc)] else [])
         \<and> (\<forall>oct dp dep. deploymentForSliceRouter r slice oct dp = Inr dep \<longrightarrow>
                Name (d_ObjectMeta dep) = Name (s_ObjectMeta svc)
              \<and> Selector_MatchLabels dep = Selector svc
              \<and> Template_Labels dep = Selector svc)"
proof -
  let ?svc0 = "sliceRouterSvc r slice"
  obtain e refs where sch: "Scheme r slice (s_ObjectMeta ?svc0) = (e, refs)"
    by (cases "Scheme r slice (s_ObjectMeta ?svc0)") auto
  let ?svc = "?svc0\<lparr>s_ObjectMeta := (s_ObjectMeta ?svc0)\<lparr>OwnerReferences := refs\<rparr>\<rparr>"
  have shape: "Name (s_ObjectMeta ?svc) = ''vl3-slice-router-'' @ slice_Name slice"
    "Namespace (s_ObjectMeta ?svc) = ControlPlaneNamespace r"
    "Ports ?svc = [\<lparr>Port = 5000, port_Name = ''grpc''\<rparr>]"
    "Selector ?svc = labelsForSliceRouterDeployment (slice_Name slice)"
    "OwnerReferences (s_ObjectMeta ?svc) = refs"
    by (simp_all add: sliceRouterSvc_def sliceRouterDeploymentNamePrefix_def Let_def)
  have issued: "pass_calls c c' = (if e = None then [CCreate (OService ?svc)] else [])"
    using run sch
    by (auto simp add: deploySliceRouterSvc_def SetControllerReference_def Let_def
        client_Create_cases Record_def pass_calls_def split: option.splits)
  have same: "Name (d_ObjectMeta dep) = Name (s_ObjectMeta ?svc)
              \<and> Selector_MatchLabels dep = Selector ?svc
              \<and> Template_Labels dep = Selector ?svc"
    if "deploymentForSliceRouter r slice oct dp = Inr dep" for oct dp dep
    using that
    by (auto simp add: deploymentForSliceRouter_def SetControllerReference_def Let_def
        sliceRouterSvc_def split: sum.splits prod.splits)
  show ?thesis
    using shape issued same sch
    by (intro exI [of _ ?svc]) (simp del: Service.simps ObjectMeta.simps)
qed

theorem router_service_shape_witness:
  "pass_calls emptyCluster
      (snd (deploySliceRouterSvc exampleReconciler emptyCluster exampleSlice))
     = [CCreate (OService
          \<lparr>s_ObjectMeta =
             \<lparr>Name = ''vl3-slice-router-red'', Namespace = ''kubeslice-system'',
              OwnerReferences =
                [\<lparr>ref_Kind = ''Slice'', ref_Name = ''red'', ref_Controller = True\<rparr>]\<rparr>,
           Selector =
             [(''networkservicemesh.io/app'', ''vl3-nse-red''),
              (''networkservicemesh.io/impl'', ''vl3-service-red''),
              (''avesha.io/pod-type'', ''router''),
              (''avesha.io/slice'', ''red'')],
           Ports = [\<lparr>Port = 5000, port_Name = ''grpc''\<rparr>]\<rparr>)]"
proof -
  let ?run = "deploySliceRouterSvc exampleReconciler emptyCluster exampleSlice"
  have run: "?run = (fst ?run, snd ?run)"
    by simp
  have sch: "Scheme exampleReconciler exampleSlice
               (s_ObjectMeta (sliceRouterSvc exampleReconciler exampleSlice))
             = (None, [\<lparr>ref_Kind = ''Slice'', ref_Name = ''red'', ref_Controller = True\<rparr>])"
    by (simp add: sliceRouterSvc_def example_defs)
  from router_service_shape [OF run] obtain svc where
    "Name (s_ObjectMeta svc) = ''vl3-slice-router-'' @ slice_Name exampleSlice"
    "Namespace (s_ObjectMeta svc) = ControlPlaneNamespace exampleReconciler"
    "Ports svc = [\<lparr>Port = 5000, port_Name = ''grpc''\<rparr>]"
    "Selector svc = labelsForSliceRouterDeployment (slice_Name exampleSlice)"
    "OwnerReferences (s_ObjectMeta svc)
       = [\<lparr>ref_Kind = ''Slice'', ref_Name = ''red'', ref_Controller = True\<rparr>]"
    "pass_calls emptyCluster (snd ?run) = [CCreate (OService svc)]"
    unfolding sch by auto
  then show ?thesis
    by (cases svc, cases "s_ObjectMeta svc")
       (simp add: labelsForSliceRouterDeployment_def exampleSlice_def exampleReconciler_def)
qed

subsection \<open>C9: where \<open>getClusterPrefixPool\<close> is defined\<close>

lemma Split_take_drop:
  assumes "4 \<le> length xs"
  shows "xs[2 := a, 3 := b] = take 2 xs @ [a, b] @ drop 4 xs"
  using assms by (auto simp add: numeral_eq_Suc Suc_le_length_iff)

text \<open>
  Claim C9, as stated, says that a subnet of at least four parts gives the first two
  parts, the octet and \<open>"0/24"\<close>. With five parts the fifth one is still there.
\<close>

theorem getClusterPrefixPool_counterexample:
  "4 \<le> length (strings_Split ''1.2.3.4.5'' (CHR ''.''))
   \<and> getClusterPrefixPool ''1.2.3.4.5'' ''9'' = Inr ''1.2.9.0/24.5''
   \<and> getClusterPrefixPool ''1.2.3.4.5'' ''9'' \<noteq> Inr ''1.2.9.0/24''"
  by (simp add: getClusterPrefixPool_def)

text \<open>
  Claim C9, amended. \<open>getClusterPrefixPool\<close> returns exactly for the subnets with three
  dots or more, that is with at least four dot-separated parts; on any other subnet,
  the empty one included, it panics with an index out of range. Where it returns, the
  result is the parts of the subnet joined by dots again with the third part replaced
  by the octet and the fourth by \<open>"0/24"\<close>: the first two parts are kept, and so is every
  part after the fourth. For a subnet of exactly four parts the result is the first
  part, the second part, the octet and \<open>"0/24"\<close>.
\<close>

theorem getClusterPrefixPool_domain:
  "getClusterPrefixPool subnet oct =
     (if 3 \<le> count_list subnet (CHR ''.'')
      then Inr (strings_Join
                  (take 2 (strings_Split subnet (CHR ''.'')) @ [oct, ''0/24'']
                     @ drop 4 (strings_Split subnet (CHR ''.'')))
                  ''.'')
      else Inl IndexOutOfRange)
   \<and> (\<forall>a b x y. strings_Split subnet (CHR ''.'') = [a, b, x, y] \<longrightarrow>
         getClusterPrefixPool subnet oct = Inr (a @ ''.'' @ b @ ''.'' @ oct @ ''.0/24''))"
proof (cases "3 \<le> count_list subnet (CHR ''.'')")
  case True
  then have "4 \<le> length (strings_Split subnet (CHR ''.''))"
    by (simp add: length_Split)
  then have "(strings_Split subnet (CHR ''.''))[2 := oct, 3 := ''0/24''] =
      take 2 (strings_Split subnet (CHR ''.'')) @ [oct, ''0/24'']
        @ drop 4 (strings_Split subnet (CHR ''.''))"
    by (rule Split_take_drop)
  with True have g: "getClusterPrefixPool subnet oct =
      Inr (strings_Join
             (take 2 (strings_Split subnet (CHR ''.'')) @ [oct, ''0/24'']
                @ drop 4 (strings_Split subnet (CHR ''.'')))
             ''.'')"
    by (simp add: getClusterPrefixPool_Inr)
  show ?thesis
    using True by (auto simp add: g)
next
  case False
  then have l: "length (strings_Split subnet (CHR ''.'')) < 4"
    by (simp add: length_Split)
  then have "getClusterPrefixPool subnet oct = Inl IndexOutOfRange"
    by (auto simp add: getClusterPrefixPool_def Let_def)
  with False l show ?thesis
    by auto
qed

theorem getClusterPrefixPool_domain_witness:
  "getClusterPrefixPool ''10.1.0.0/16'' ''7'' = Inr ''10.1.7.0/24''
   \<and> getClusterPrefixPool ''10.1.0'' ''7'' = Inl IndexOutOfRange
   \<and> getClusterPrefixPool [] ''7'' = Inl IndexOutOfRange"
proof -
  have s: "strings_Split ''10.1.0.0/16'' (CHR ''.'') = [''10'', ''1'', ''0'', ''0/16'']"
    by simp
  have "getClusterPrefixPool ''10.1.0.0/16'' ''7'' = Inr ''10.1.7.0/24''"
    using getClusterPrefixPool_domain [of "''10.1.0.0/16''" "''7''"] s by simp
  moreover have "getClusterPrefixPool ''10.1.0'' ''7'' = Inl IndexOutOfRange"
    using getClusterPrefixPool_domain [of "''10.1.0''" "''7''"] by simp
  moreover have "getClusterPrefixPool [] ''7'' = Inl IndexOutOfRange"
    using getClusterPrefixPool_domain [of "[]" "''7''"] by simp
  ultimately show ?thesis
    by simp
qed

subsection \<open>C10: the namespaces of the Deployment and of the Service\<close>

lemma deploymentForSliceRouter_key:
  "deploymentForSliceRouter r s oct dp = Inr dep \<Longrightarrow> key_of (ODeployment dep) = deploymentKey s"
  by (auto simp add: deploymentForSliceRouter_def SetControllerReference_def Let_def
      deploymentKey_def split: sum.splits prod.splits)

lemma deploySliceRouter_issues:
  assumes "deploySliceRouter r c slice = (out, c')"
  shows "\<exists>new. calls c' = calls c @ new
           \<and> (\<forall>x \<in> set new.
                 x = CList (slice_Namespace slice) [(''app'', ''nsm-vpp-plane'')]
                 \<or> (\<exists>dep. x = CCreate (ODeployment dep)
                        \<and> key_of (ODeployment dep) = deploymentKey slice))"
  using assms
  by (auto simp add: deploySliceRouter_def getNsmDataplaneMode_eq client_Create_cases
        Record_def nsmVppDataplaneCfgStr_def
      dest: deploymentForSliceRouter_key
      split: sum.splits if_splits option.splits)

lemma deploySliceRouterSvc_issues:
  assumes "deploySliceRouterSvc r c slice = (out, c')"
  shows "\<exists>new. calls c' = calls c @ new
           \<and> (\<forall>x \<in> set new. \<exists>svc. x = CCreate (OService svc)
                                  \<and> key_of (OService svc) = serviceKey r slice)"
  using assms
  by (auto simp add: deploySliceRouterSvc_def SetControllerReference_def sliceRouterSvc_def
        client_Create_cases Record_def Let_def serviceKey_def
      split: option.splits prod.splits)

lemma ReconcileSliceRouter_issues:
  assumes x: "x \<in> set (pass_calls c (snd (ReconcileSliceRouter r c slice)))"
  shows "x = CGet (deploymentKey slice) \<or> x = CGet (serviceKey r slice)
         \<or> x = CList (slice_Namespace slice) [(''app'', ''nsm-vpp-plane'')]
         \<or> (\<exists>ob. x = CCreate ob
                \<and> (key_of ob = deploymentKey slice \<or> key_of ob = serviceKey r slice))"
proof -
  let ?c1 = "logged c (CGet (deploymentKey slice))"
  let ?c2 = "logged ?c1 (CGet (serviceKey r slice))"
  obtain o2 c2 where d: "deploySliceRouter r ?c1 slice = (o2, c2)"
    by (cases "deploySliceRouter r ?c1 slice") auto
  obtain o3 c3 where s: "deploySliceRouterSvc r ?c2 slice = (o3, c3)"
    by (cases "deploySliceRouterSvc r ?c2 slice") auto
  from deploySliceRouter_issues [OF d] obtain new2 where
    n2: "calls c2 = calls ?c1 @ new2"
      "\<forall>x \<in> set new2. x = CList (slice_Namespace slice) [(''app'', ''nsm-vpp-plane'')]
          \<or> (\<exists>dep. x = CCreate (ODeployment dep)
                 \<and> key_of (ODeployment dep) = deploymentKey slice)"
    by blast
  from deploySliceRouterSvc_issues [OF s] obtain new3 where
    n3: "calls c3 = calls ?c2 @ new3"
      "\<forall>x \<in> set new3. \<exists>svc. x = CCreate (OService svc)
          \<and> key_of (OService svc) = serviceKey r slice"
    by blast
  have "snd (ReconcileSliceRouter r c slice) \<in> {?c1, ?c2, c2, c3}"
    by (auto simp add: ReconcileSliceRouter_def client_Get_def d s
        split: sum.splits option.splits)
  then consider "snd (ReconcileSliceRouter r c slice) = ?c1"
    | "snd (ReconcileSliceRouter r c slice) = ?c2"
    | "snd (ReconcileSliceRouter r c slice) = c2"
    | "snd (ReconcileSliceRouter r c slice) = c3"
    by auto
  then show ?thesis
  proof cases
    case 1
    with x show ?thesis by (simp add: pass_calls_def)
  next
    case 2
    with x show ?thesis by (auto simp add: pass_calls_def)
  next
    case 3
    with x n2 show ?thesis by (auto simp add: pass_calls_def)
  next
    case 4
    with x n3 show ?thesis by (auto simp add: pass_calls_def)
  qed
qed

lemma cleanupSliceRouter_issues:
  assumes x: "x \<in> set (pass_calls c (snd (cleanupSliceRouter r c n)))"
  shows "x = CGet (networkServiceKey r n)
         \<or> (\<exists>ob. x = CDelete ob \<and> Get_response c (networkServiceKey r n) = Inr ob)"
  using x
  by (auto simp add: cleanupSliceRouter_def client_Get_def client_Delete_def pass_calls_def
      split: sum.splits option.splits if_splits)

text \<open>
  Claim C10, as stated, says that the Deployment and the Service do not share a
  namespace. They do whenever the slice lives in the control-plane namespace: two passes
  over the example slice, which lives in \<open>kubeslice-system\<close>, leave both objects there.
\<close>

theorem router_namespaces_counterexample:
  "slice_Namespace exampleSlice = ControlPlaneNamespace exampleReconciler
   \<and> dom (objects
          (snd (ReconcileSliceRouter exampleReconciler
                  (snd (ReconcileSliceRouter exampleReconciler emptyCluster exampleSlice))
                  exampleSlice)))
     = {(KDeployment, ''kubeslice-system'', ''vl3-slice-router-red''),
        (KService, ''kubeslice-system'', ''vl3-slice-router-red'')}"
  by (simp add: run_defs example_defs Let_def insert_commute)

text \<open>
  Claim C10, amended. The router Deployment and the router Service share their name,
  and each has its own namespace: \<open>ReconcileSliceRouter\<close> reads and creates the
  Deployment in the slice's namespace and the Service in the control-plane namespace,
  and lists the pods in the slice's namespace; it issues no other Get or Create and no
  Delete. \<open>cleanupSliceRouter\<close> reads the network-service object \<open>"vl3-service-"\<close> followed
  by the slice name in the control-plane namespace and deletes nothing but the object
  that Get returned. The two namespaces differ exactly when the slice does not live in
  the control-plane namespace.
\<close>

theorem router_namespaces:
  "deploymentKey slice
     = (KDeployment, slice_Namespace slice, ''vl3-slice-router-'' @ slice_Name slice)
   \<and> serviceKey r slice
     = (KService, ControlPlaneNamespace r, ''vl3-slice-router-'' @ slice_Name slice)
   \<and> networkServiceKey r n = (KNetworkService, ControlPlaneNamespace r, ''vl3-service-'' @ n)
   \<and> (\<forall>x \<in> set (pass_calls c (snd (ReconcileSliceRouter r c slice))).
         case x of
           CGet k \<Rightarrow> k = deploymentKey slice \<or> k = serviceKey r slice
         | CList ns sel \<Rightarrow> ns = slice_Namespace slice
         | CCreate ob \<Rightarrow> key_of ob = deploymentKey slice \<or> key_of ob = serviceKey r slice
         | CDelete ob \<Rightarrow> False)
   \<and> (\<forall>x \<in> set (pass_calls c (snd (cleanupSliceRouter r c n))).
         case x of
           CGet k \<Rightarrow> k = networkServiceKey r n
         | CList ns sel \<Rightarrow> False
         | CCreate ob \<Rightarrow> False
         | CDelete ob \<Rightarrow> Get_response c (networkServiceKey r n) = Inr ob)
   \<and> (fst (snd (deploymentKey slice)) = fst (snd (serviceKey r slice))
        \<longleftrightarrow> slice_Namespace slice = ControlPlaneNamespace r)"
proof -
  have keys: "deploymentKey slice
       = (KDeployment, slice_Namespace slice, ''vl3-slice-router-'' @ slice_Name slice)"
    "serviceKey r slice
       = (KService, ControlPlaneNamespace r, ''vl3-slice-router-'' @ slice_Name slice)"
    "networkServiceKey r n = (KNetworkService, ControlPlaneNamespace r, ''vl3-service-'' @ n)"
    by (simp_all add: deploymentKey_def serviceKey_def networkServiceKey_def
        sliceRouterDeploymentNamePrefix_def)
  have rec: "case x of
           CGet k \<Rightarrow> k = deploymentKey slice \<or> k = serviceKey r slice
         | CList ns sel \<Rightarrow> ns = slice_Namespace slice
         | CCreate ob \<Rightarrow> key_of ob = deploymentKey slice \<or> key_of ob = serviceKey r slice
         | CDelete ob \<Rightarrow> False"
    if "x \<in> set (pass_calls c (snd (ReconcileSliceRouter r c slice)))" for x
    using ReconcileSliceRouter_issues [OF that] by auto
  have cln: "case x of
           CGet k \<Rightarrow> k = networkServiceKey r n
         | CList ns sel \<Rightarrow> False
         | CCreate ob \<Rightarrow> False
         | CDelete ob \<Rightarrow> Get_response c (networkServiceKey r n) = Inr ob"
    if "x \<in> set (pass_calls c (snd (cleanupSliceRouter r c n)))" for x
    using cleanupSliceRouter_issues [OF that] by auto
  have ns: "fst (snd (deploymentKey slice)) = fst (snd (serviceKey r slice))
        \<longleftrightarrow> slice_Namespace slice = ControlPlaneNamespace r"
    by (simp add: keys)
  show ?thesis
    using keys rec cln ns by blast
qed

theorem router_namespaces_witness:
  "pass_calls emptyCluster
      (snd (ReconcileSliceRouter exampleReconciler emptyCluster
              (exampleSlice\<lparr>slice_Namespace := ''tenant-a'', Status_SliceConfig := None\<rparr>)))
     = [CGet (KDeployment, ''tenant-a'', ''vl3-slice-router-red'')]
   \<and> pass_calls provisionedCluster
      (snd (ReconcileSliceRouter exampleReconciler provisionedCluster exampleSlice))
     = [CGet (KDeployment, ''kubeslice-system'', ''vl3-slice-router-red''),
        CGet (KService, ''kubeslice-system'', ''vl3-slice-router-red'')]
   \<and> pass_calls emptyCluster (snd (cleanupSliceRouter exampleReconciler emptyCluster ''red''))
     = [CGet (KNetworkService, ''kubeslice-system'', ''vl3-service-red'')]"
proof -
  let ?s = "exampleSlice\<lparr>slice_Namespace := ''tenant-a'', Status_SliceConfig := None\<rparr>"
  let ?p1 = "pass_calls emptyCluster (snd (ReconcileSliceRouter exampleReconciler emptyCluster ?s))"
  let ?p2 = "pass_calls provisionedCluster
               (snd (ReconcileSliceRouter exampleReconciler provisionedCluster exampleSlice))"
  let ?p3 = "pass_calls emptyCluster (snd (cleanupSliceRouter exampleReconciler emptyCluster ''red''))"
  have l1: "?p1 = [CGet (deploymentKey ?s)]"
    by (simp add: run_defs example_defs)
  have l2: "?p2 = [CGet (deploymentKey exampleSlice), CGet (serviceKey exampleReconciler exampleSlice)]"
    by (simp add: run_defs example_defs)
  have l3: "?p3 = [CGet (networkServiceKey exampleReconciler ''red'')]"
    by (simp add: run_defs example_defs)
  have k1: "deploymentKey ?s = (KDeployment, ''tenant-a'', ''vl3-slice-router-red'')"
    using router_namespaces [of ?s exampleReconciler "''red''" emptyCluster]
    by (simp add: exampleSlice_def)
  have k2: "deploymentKey exampleSlice = (KDeployment, ''kubeslice-system'', ''vl3-slice-router-red'')"
    "serviceKey exampleReconciler exampleSlice
       = (KService, ''kubeslice-system'', ''vl3-slice-router-red'')"
    "networkServiceKey exampleReconciler ''red''
       = (KNetworkService, ''kubeslice-system'', ''vl3-service-red'')"
    using router_namespaces [of exampleSlice exampleReconciler "''red''" emptyCluster]
    by (simp_all add: exampleSlice_def exampleReconciler_def)
  show ?thesis
    by (simp only: l1 l2 l3 k1 k2)
qed

end
